theory Spec2Isabelle
  imports Complex_Main "HOL-Library.Char_ord" "HOL-Library.List_Lexorder" "HOL-Library.AList"
begin

section \<open>Exceptions\<close>

text \<open>
  The exception classes the code raises or lets through. \<open>ParserError\<close>,
  \<open>ValidationError\<close> and \<open>FileFormatError\<close> are declared in
  \<^verbatim>\<open>core/base_parser.py\<close>; the others are Python built-ins. A message is kept
  structured instead of as formatted text, so that the column and the count an error
  names can be read off it.
\<close>

datatype exc_class =
    FileNotFoundError | PermissionError | OSError
  | ParserError | ValidationError | FileFormatError
  | TypeError | ValueError | KeyError | AttributeError

datatype error = Exc exc_class message
and message =
    Text string
  | FileNotFound string
  | NotAFile string
  | FileEmpty string
  | MissingColumns "string list"
  | OutOfRange string nat real real
  | Caused string error

fun exc_class_of :: "error \<Rightarrow> exc_class" where
  "exc_class_of (Exc c m) = c"

fun message_of :: "error \<Rightarrow> message" where
  "message_of (Exc c m) = m"

text \<open>The direct base class of each exception class (\<open>None\<close>: \<open>Exception\<close>).\<close>

fun base_class :: "exc_class \<Rightarrow> exc_class option" where
  "base_class ValidationError = Some ParserError"
| "base_class FileFormatError = Some ParserError"
| "base_class FileNotFoundError = Some OSError"
| "base_class PermissionError = Some OSError"
| "base_class c = None"

text \<open>\<open>isinstance(e, cls)\<close>; the hierarchy is two levels deep.\<close>

definition isinstance :: "error \<Rightarrow> exc_class \<Rightarrow> bool" where
  "isinstance e cls =
     (exc_class_of e = cls \<or> base_class (exc_class_of e) = Some cls)"

section \<open>Tables\<close>

text \<open>
  A pandas column has one dtype: a numeric column holds numbers and NaN, an object
  column holds strings and nulls. Floating-point numbers are modelled by exact reals.
  A table is its row labels and its labelled columns, in order. Column labels are taken
  to be distinct and every column as long as the index (\<open>wf_frame\<close>): looking a
  label up gives its first column, and of what pandas does with a repeated label only
  the refusal of \<open>reindex\<close> is modelled.
\<close>

datatype column = NumCol "real option list" | ObjCol "string option list"

datatype cell = Num real | Str string | Null

record dataframe =
  index :: "int list"
  cols :: "(string \<times> column) list"

fun col_len :: "column \<Rightarrow> nat" where
  "col_len (NumCol xs) = length xs"
| "col_len (ObjCol xs) = length xs"

definition columns :: "dataframe \<Rightarrow> string list" where
  "columns df = map fst (cols df)"

definition len_df :: "dataframe \<Rightarrow> nat" where
  "len_df df = length (index df)"

definition wf_frame :: "dataframe \<Rightarrow> bool" where
  "wf_frame df =
     (distinct (columns df) \<and> list_all (\<lambda>(n, c). col_len c = len_df df) (cols df))"

text \<open>\<open>df[name]\<close>: a missing label raises \<open>KeyError\<close>.\<close>

definition getitem :: "dataframe \<Rightarrow> string \<Rightarrow> error + column" where
  "getitem df name =
     (case map_of (cols df) name of
        None \<Rightarrow> Inl (Exc KeyError (Text name))
      | Some c \<Rightarrow> Inr c)"

fun cell_at :: "column \<Rightarrow> nat \<Rightarrow> cell" where
  "cell_at (NumCol xs) i =
     (if i < length xs then (case xs ! i of None \<Rightarrow> Null | Some r \<Rightarrow> Num r) else Null)"
| "cell_at (ObjCol xs) i =
     (if i < length xs then (case xs ! i of None \<Rightarrow> Null | Some s \<Rightarrow> Str s) else Null)"

definition row_at :: "dataframe \<Rightarrow> nat \<Rightarrow> cell list" where
  "row_at df i = map (\<lambda>(n, c). cell_at c i) (cols df)"

definition rows :: "dataframe \<Rightarrow> cell list list" where
  "rows df = map (row_at df) [0..<len_df df]"

text \<open>The non-null values of a numeric column.\<close>

fun present :: "'a option list \<Rightarrow> 'a list" where
  "present [] = []"
| "present (None # xs) = present xs"
| "present (Some x # xs) = x # present xs"

text \<open>
  An elementwise comparison of a column with a number. NaN and null compare false; a
  string against a number raises \<open>TypeError\<close>.
\<close>

fun compare_col :: "(real \<Rightarrow> bool) \<Rightarrow> column \<Rightarrow> error + bool list" where
  "compare_col P (NumCol xs) =
     Inr (map (\<lambda>x. case x of None \<Rightarrow> False | Some r \<Rightarrow> P r) xs)"
| "compare_col P (ObjCol xs) =
     (if present xs = [] then Inr (map (\<lambda>x. False) xs)
      else Inl (Exc TypeError (Text ''not supported between instances of str and int'')))"

section \<open>Metadata\<close>

text \<open>
  Metadata values: Python scalars, tuples, lists and nested dictionaries, the numpy
  scalars and arrays pandas returns, and any other object (\<open>MOpaque\<close>). A dictionary
  keeps its insertion order; \<open>AList.update\<close> replaces a key in place or appends it,
  as assignment to a Python dict does.
\<close>

datatype mvalue =
    MNone
  | MBool bool
  | MInt int
  | MFloat real
  | MNaN
  | MStr string
  | NpInt int
  | NpFloat real
  | NpNaN
  | NpArray "real list"
  | MTuple "mvalue list"
  | MList "mvalue list"
  | MDict "(string \<times> mvalue) list"
  | MOpaque string

type_synonym metadata = "(string \<times> mvalue) list"

fun dict_update :: "metadata \<Rightarrow> metadata \<Rightarrow> metadata" where
  "dict_update m [] = m"
| "dict_update m ((k, v) # kvs) = dict_update (AList.update k v m) kvs"

section \<open>Parsers\<close>

datatype variant = Electrical | Seismic | Radar

record path =
  parent :: string
  stem :: string
  suffix :: string

definition path_name :: "path \<Rightarrow> string" where
  "path_name p = stem p @ suffix p"

definition path_str :: "path \<Rightarrow> string" where
  "path_str p = parent p @ ''/'' @ path_name p"

text \<open>What the file system says about a path when the parser is constructed.\<close>

datatype path_status = Missing | NotRegular | RegularFile nat

record parsed_data =
  metadata :: metadata
  data :: "dataframe option"

record parser = parsed_data +
  variant :: variant
  file_path :: path
  encoding :: string
  raw_data :: "string option"
  is_loaded :: bool
  is_parsed :: bool
  is_validated :: bool

text \<open>\<open>BaseParser._validate_file_path\<close>.\<close>

definition validate_file_path :: "path \<Rightarrow> path_status \<Rightarrow> error + unit" where
  "validate_file_path p st =
     (case st of
        Missing \<Rightarrow> Inl (Exc FileNotFoundError (FileNotFound (path_str p)))
      | NotRegular \<Rightarrow> Inl (Exc ParserError (NotAFile (path_str p)))
      | RegularFile st_size \<Rightarrow>
          if \<not> st_size > 0 then Inl (Exc ParserError (FileEmpty (path_str p)))
          else Inr ())"

text \<open>
  \<open>BaseParser.__init__\<close>, for a parser class of the given variant: the fields are
  set, then the path is validated; \<open>now\<close> is the clock's reading.
\<close>

definition init :: "variant \<Rightarrow> path \<Rightarrow> string \<Rightarrow> string \<Rightarrow> path_status \<Rightarrow> error + parser" where
  "init v p enc now st =
     (case validate_file_path p st of
        Inl e \<Rightarrow> Inl e
      | Inr u \<Rightarrow>
          Inr \<lparr> metadata = [(''file_name'', MStr (path_name p)),
                             (''file_path'', MStr (path_str p)),
                             (''created_at'', MStr now)],
                 data = None,
                 variant = v, file_path = p, encoding = enc, raw_data = None,
                 is_loaded = False, is_parsed = False, is_validated = False \<rparr>)"

subsection \<open>load\<close>

fun load_prefix :: "variant \<Rightarrow> string" where
  "load_prefix Electrical = ''Failed to load file: ''"
| "load_prefix Seismic = ''Failed to load seismic file: ''"
| "load_prefix Radar = ''Failed to load GPR file: ''"

text \<open>
  \<open>load\<close>: \<open>rd\<close> is what opening and reading the file gives, the text or the
  exception. Any exception is wrapped in a \<open>ParserError\<close>.
\<close>

definition load :: "(error + string) \<Rightarrow> parser \<Rightarrow> (error + unit) \<times> parser" where
  "load rd s =
     (case rd of
        Inl e \<Rightarrow> (Inl (Exc ParserError (Caused (load_prefix (variant s)) e)), s)
      | Inr txt \<Rightarrow> (Inr (), s\<lparr>raw_data := Some txt, is_loaded := True\<rparr>))"

subsection \<open>parse\<close>

text \<open>
  The pandas functions the parsers and processors call but this repository does not
  define: reading delimited text into a table, converting a string to a number
  (\<open>pd.to_numeric\<close>, \<open>None\<close> when it cannot be converted) and a number to a string
  (\<open>astype(str)\<close>).
\<close>

record pandas =
  read_csv :: "string \<Rightarrow> error + dataframe"
  to_number :: "string \<Rightarrow> real option"
  number_str :: "real \<Rightarrow> string"

fun column_map :: "variant \<Rightarrow> (string \<times> string) list" where
  "column_map Electrical =
     [(''station'', ''station_id''), (''Station'', ''station_id''), (''STATION'', ''station_id''),
      (''depth'', ''depth_m''), (''Depth'', ''depth_m''), (''DEPTH'', ''depth_m''),
      (''depth_m'', ''depth_m''),
      (''resistance'', ''resistivity_ohm_m''), (''resistivity'', ''resistivity_ohm_m''),
      (''Resistivity'', ''resistivity_ohm_m''), (''RESISTIVITY'', ''resistivity_ohm_m''),
      (''current'', ''current_ma''), (''Current'', ''current_ma''),
      (''voltage'', ''voltage_mv''), (''Voltage'', ''voltage_mv'')]"
| "column_map Seismic =
     [(''trace'', ''trace_number''), (''Trace'', ''trace_number''), (''TRACE'', ''trace_number''),
      (''time'', ''time_ms''), (''Time'', ''time_ms''), (''TIME'', ''time_ms''),
      (''time_ms'', ''time_ms''),
      (''amp'', ''amplitude''), (''Amplitude'', ''amplitude''), (''AMPLITUDE'', ''amplitude''),
      (''station'', ''station_id''), (''Station'', ''station_id''),
      (''offset'', ''offset_m''), (''Offset'', ''offset_m'')]"
| "column_map Radar =
     [(''trace'', ''trace_number''), (''Trace'', ''trace_number''), (''TRACE'', ''trace_number''),
      (''sample'', ''sample_number''), (''Sample'', ''sample_number''),
      (''SAMPLE'', ''sample_number''),
      (''amp'', ''amplitude''), (''Amplitude'', ''amplitude''), (''AMPLITUDE'', ''amplitude''),
      (''distance'', ''distance_m''), (''Distance'', ''distance_m''),
      (''time'', ''time_ns''), (''Time'', ''time_ns''), (''time_ns'', ''time_ns''),
      (''frequency'', ''antenna_freq_mhz''), (''freq'', ''antenna_freq_mhz''),
      (''antenna_frequency'', ''antenna_freq_mhz'')]"

text \<open>
  \<open>BaseParser._standardize_column_names\<close>: the entries of the map whose key is a
  label of the table are kept, and the table's labels are renamed by them.
\<close>

definition standardize_column_names :: "dataframe \<Rightarrow> (string \<times> string) list \<Rightarrow> dataframe" where
  "standardize_column_names df cmap =
     (let rename_dict = filter (\<lambda>(old, new). old \<in> set (columns df)) cmap
      in df\<lparr>cols := map (\<lambda>(n, c). (case map_of rename_dict n of
                                          None \<Rightarrow> n | Some n' \<Rightarrow> n', c)) (cols df)\<rparr>)"

text \<open>
  \<open>Series.nunique()\<close> counts the distinct non-null values; \<open>Series.min()\<close> and
  \<open>Series.max()\<close> skip NaN in a numeric column and give NaN when nothing is left;
  on an object column a null among the strings makes the comparison raise.
\<close>

fun nunique :: "column \<Rightarrow> nat" where
  "nunique (NumCol xs) = length (remdups (present xs))"
| "nunique (ObjCol xs) = length (remdups (present xs))"

fun reduce_col :: "(real \<Rightarrow> real \<Rightarrow> real) \<Rightarrow> (string \<Rightarrow> string \<Rightarrow> string) \<Rightarrow> column
    \<Rightarrow> error + mvalue" where
  "reduce_col f g (NumCol xs) =
     (case present xs of [] \<Rightarrow> Inr NpNaN | y # ys \<Rightarrow> Inr (NpFloat (fold f ys y)))"
| "reduce_col f g (ObjCol xs) =
     (if xs = [] then Inr NpNaN
      else if None \<in> set xs
      then Inl (Exc TypeError (Text ''not supported between instances of str and float''))
      else (case present xs of [] \<Rightarrow> Inr NpNaN | y # ys \<Rightarrow> Inr (MStr (fold g ys y))))"

definition col_min :: "column \<Rightarrow> error + mvalue" where
  "col_min c = reduce_col min min c"

definition col_max :: "column \<Rightarrow> error + mvalue" where
  "col_max c = reduce_col max max c"

text \<open>\<open>df[c].nunique() if c in df else 0\<close>.\<close>

definition count_entry :: "dataframe \<Rightarrow> string \<Rightarrow> mvalue" where
  "count_entry df c =
     (case map_of (cols df) c of
        None \<Rightarrow> MInt 0
      | Some col \<Rightarrow> MInt (int (nunique col)))"

text \<open>\<open>(df[c].min(), df[c].max()) if c in df else None\<close>.\<close>

definition range_entry :: "dataframe \<Rightarrow> string \<Rightarrow> error + mvalue" where
  "range_entry df c =
     (case map_of (cols df) c of
        None \<Rightarrow> Inr MNone
      | Some col \<Rightarrow>
          (case col_min col of
             Inl e \<Rightarrow> Inl e
           | Inr lo \<Rightarrow> (case col_max col of
                          Inl e \<Rightarrow> Inl e
                        | Inr hi \<Rightarrow> Inr (MTuple [lo, hi]))))"

text \<open>The dictionary each \<open>parse\<close> passes to \<open>metadata.update\<close>.\<close>

fun parse_metadata :: "variant \<Rightarrow> dataframe \<Rightarrow> error + metadata" where
  "parse_metadata Electrical df =
     (case range_entry df ''depth_m'' of
        Inl e \<Rightarrow> Inl e
      | Inr dr \<Rightarrow>
     (case range_entry df ''resistivity_ohm_m'' of
        Inl e \<Rightarrow> Inl e
      | Inr rr \<Rightarrow>
          Inr [(''data_type'', MStr ''electrical_resistivity''),
               (''record_count'', MInt (int (len_df df))),
               (''stations'', count_entry df ''station_id''),
               (''depth_range_m'', dr),
               (''resistivity_range_ohm_m'', rr)]))"
| "parse_metadata Seismic df =
     (case range_entry df ''time_ms'' of
        Inl e \<Rightarrow> Inl e
      | Inr tr \<Rightarrow>
     (case range_entry df ''amplitude'' of
        Inl e \<Rightarrow> Inl e
      | Inr ar \<Rightarrow>
          Inr [(''data_type'', MStr ''seismic''),
               (''record_count'', MInt (int (len_df df))),
               (''traces'', count_entry df ''trace_number''),
               (''time_range_ms'', tr),
               (''amplitude_range'', ar)]))"
| "parse_metadata Radar df =
     (case range_entry df ''amplitude'' of
        Inl e \<Rightarrow> Inl e
      | Inr ar \<Rightarrow>
     (case range_entry df ''distance_m'' of
        Inl e \<Rightarrow> Inl e
      | Inr dr \<Rightarrow>
          Inr [(''data_type'', MStr ''radar''),
               (''record_count'', MInt (int (len_df df))),
               (''traces'', count_entry df ''trace_number''),
               (''samples_per_trace'', count_entry df ''sample_number''),
               (''amplitude_range'', ar),
               (''distance_range_m'', dr)]))"

fun parse_prefix :: "variant \<Rightarrow> string" where
  "parse_prefix Electrical = ''Failed to parse electrical data: ''"
| "parse_prefix Seismic = ''Failed to parse seismic data: ''"
| "parse_prefix Radar = ''Failed to parse GPR data: ''"

text \<open>The body of the \<open>try\<close> block of \<open>parse\<close>, up to the assignments.\<close>

definition parse_body :: "pandas \<Rightarrow> parser \<Rightarrow> error + metadata \<times> dataframe" where
  "parse_body pd s =
     (case read_csv pd (case raw_data s of None \<Rightarrow> [] | Some txt \<Rightarrow> txt) of
        Inl e \<Rightarrow> Inl e
      | Inr df0 \<Rightarrow>
          (let df = standardize_column_names df0 (column_map (variant s))
           in case parse_metadata (variant s) df of
                Inl e \<Rightarrow> Inl e
              | Inr upd \<Rightarrow> Inr (dict_update (metadata s) upd, df)))"

definition parse :: "pandas \<Rightarrow> parser \<Rightarrow> (error + parsed_data) \<times> parser" where
  "parse pd s =
     (if \<not> is_loaded s
      then (Inl (Exc ParserError (Text ''Data must be loaded first. Call load() before parse().'')), s)
      else (case parse_body pd s of
              Inl e \<Rightarrow> (Inl (Exc ParserError (Caused (parse_prefix (variant s)) e)), s)
            | Inr (md, df) \<Rightarrow>
                (Inr \<lparr>metadata = md, data = Some df\<rparr>,
                 s\<lparr>metadata := md, data := Some df, is_parsed := True\<rparr>)))"

subsection \<open>validate\<close>

text \<open>\<open>BaseParser._check_required_columns\<close>.\<close>

definition check_required_columns :: "dataframe \<Rightarrow> string list \<Rightarrow> error + unit" where
  "check_required_columns df required_columns =
     (let missing_columns = filter (\<lambda>col. col \<notin> set (columns df)) required_columns
      in if missing_columns \<noteq> [] then Inl (Exc ValidationError (MissingColumns missing_columns))
         else Inr ())"

text \<open>\<open>((data[column] < min_val) | (data[column] > max_val)).sum()\<close>.\<close>

definition out_of_range :: "column \<Rightarrow> real \<Rightarrow> real \<Rightarrow> error + nat" where
  "out_of_range c min_val max_val =
     (case compare_col (\<lambda>x. x < min_val) c of
        Inl e \<Rightarrow> Inl e
      | Inr too_low \<Rightarrow>
          (case compare_col (\<lambda>x. x > max_val) c of
             Inl e \<Rightarrow> Inl e
           | Inr too_high \<Rightarrow>
               Inr (length (filter (\<lambda>(b, a). b \<or> a) (zip too_low too_high)))))"

text \<open>
  \<open>BaseParser._check_value_ranges\<close>: the loop over the range map, in the order the
  dictionary was written; a column that is not in the table is skipped, the first
  column with a value out of range raises.
\<close>

fun check_value_ranges :: "dataframe \<Rightarrow> (string \<times> real \<times> real) list \<Rightarrow> error + unit" where
  "check_value_ranges df [] = Inr ()"
| "check_value_ranges df ((column, min_val, max_val) # items) =
     (case map_of (cols df) column of
        None \<Rightarrow> check_value_ranges df items
      | Some c \<Rightarrow>
          (case out_of_range c min_val max_val of
             Inl e \<Rightarrow> Inl e
           | Inr n \<Rightarrow>
               if n > 0 then Inl (Exc ValidationError (OutOfRange column n min_val max_val))
               else check_value_ranges df items))"

fun required :: "variant \<Rightarrow> string list" where
  "required Electrical = [''station_id'', ''depth_m'', ''resistivity_ohm_m'']"
| "required Seismic = [''trace_number'', ''time_ms'', ''amplitude'']"
| "required Radar = [''trace_number'', ''sample_number'', ''amplitude'']"

fun range_map :: "variant \<Rightarrow> (string \<times> real \<times> real) list" where
  "range_map Electrical =
     [(''depth_m'', 0, 10000),
      (''resistivity_ohm_m'', 1 / 1000, 1000000),
      (''current_ma'', 0, 10000),
      (''voltage_mv'', 0, 100000)]"
| "range_map Seismic =
     [(''time_ms'', 0, 100000),
      (''amplitude'', - 1000000, 1000000),
      (''offset_m'', 0, 100000)]"
| "range_map Radar =
     [(''sample_number'', 0, 100000),
      (''amplitude'', - 32768, 32767),
      (''distance_m'', 0, 10000),
      (''time_ns'', 0, 1000000),
      (''antenna_freq_mhz'', 10, 5000)]"

text \<open>\<open>if (data[name] <cmp> 0).any(): raise ValidationError(msg)\<close>.\<close>

definition sign_check :: "dataframe \<Rightarrow> string \<Rightarrow> (real \<Rightarrow> bool) \<Rightarrow> string \<Rightarrow> error + unit" where
  "sign_check df name P msg =
     (case getitem df name of
        Inl e \<Rightarrow> Inl e
      | Inr c \<Rightarrow>
          (case compare_col P c of
             Inl e \<Rightarrow> Inl e
           | Inr bs \<Rightarrow> if True \<in> set bs then Inl (Exc ValidationError (Text msg))
                       else Inr ()))"

fun sign_checks :: "variant \<Rightarrow> dataframe \<Rightarrow> error + unit" where
  "sign_checks Electrical df =
     (case sign_check df ''depth_m'' (\<lambda>x. x < 0) ''Depth values cannot be negative'' of
        Inl e \<Rightarrow> Inl e
      | Inr u \<Rightarrow> sign_check df ''resistivity_ohm_m'' (\<lambda>x. x \<le> 0)
                   ''Resistivity values must be positive'')"
| "sign_checks Seismic df =
     sign_check df ''time_ms'' (\<lambda>x. x < 0) ''Time values cannot be negative''"
| "sign_checks Radar df =
     sign_check df ''sample_number'' (\<lambda>x. x < 0) ''Sample numbers cannot be negative''"

text \<open>The three checks of \<open>validate\<close>, in the order the code runs them.\<close>

definition validate_checks :: "variant \<Rightarrow> dataframe \<Rightarrow> error + unit" where
  "validate_checks v df =
     (case check_required_columns df (required v) of
        Inl e \<Rightarrow> Inl e
      | Inr u \<Rightarrow>
          (case check_value_ranges df (range_map v) of
             Inl e \<Rightarrow> Inl e
           | Inr u \<Rightarrow> sign_checks v df))"

text \<open>
  \<open>validate(data=None)\<close> of the three parser classes: the table passed, or else the
  parser's own; the flag is set when every check has passed.
\<close>

definition validate :: "dataframe option \<Rightarrow> parser \<Rightarrow> (error + bool) \<times> parser" where
  "validate arg s =
     (case (case arg of None \<Rightarrow> data s | Some d \<Rightarrow> Some d) of
        None \<Rightarrow> (Inl (Exc ValidationError (Text ''No data to validate. Call parse() first.'')), s)
      | Some d \<Rightarrow>
          (case validate_checks (variant s) d of
             Inl e \<Rightarrow> (Inl e, s)
           | Inr u \<Rightarrow> (Inr True, s\<lparr>is_validated := True\<rparr>)))"

subsection \<open>process\<close>

text \<open>
  \<open>BaseParser.process\<close>: each step runs only when its flag is not yet set; an
  exception leaves the parser as the steps before it made it.
\<close>

definition process :: "pandas \<Rightarrow> (error + string) \<Rightarrow> bool \<Rightarrow> parser
    \<Rightarrow> (error + parsed_data) \<times> parser" where
  "process pd rd skip_validation s =
     (case (if \<not> is_loaded s then load rd s else (Inr (), s)) of
        (Inl e, s1) \<Rightarrow> (Inl e, s1)
      | (Inr u, s1) \<Rightarrow>
          (case (if \<not> is_parsed s1 then parse pd s1
                 else (Inr \<lparr>metadata = metadata s1, data = data s1\<rparr>, s1)) of
             (Inl e, s2) \<Rightarrow> (Inl e, s2)
           | (Inr result, s2) \<Rightarrow>
               if \<not> skip_validation \<and> \<not> is_validated s2
               then (case validate None s2 of
                       (Inl e, s3) \<Rightarrow> (Inl e, s3)
                     | (Inr b, s3) \<Rightarrow> (Inr result, s3))
               else (Inr result, s2)))"

subsection \<open>Sequences of calls\<close>

text \<open>
  A call of one of the four public operations, with what the environment answers
  during it; \<open>run\<close> makes the calls one after the other on the same parser, whether
  they raise or not.
\<close>

datatype call =
    Load "error + string"
  | Parse
  | Validate "dataframe option"
  | Process "error + string" bool

fun step :: "pandas \<Rightarrow> call \<Rightarrow> parser \<Rightarrow> parser" where
  "step pd (Load rd) s = snd (load rd s)"
| "step pd Parse s = snd (parse pd s)"
| "step pd (Validate arg) s = snd (validate arg s)"
| "step pd (Process rd skip) s = snd (process pd rd skip s)"

fun run :: "pandas \<Rightarrow> call list \<Rightarrow> parser \<Rightarrow> parser" where
  "run pd [] s = s"
| "run pd (c # cs) s = run pd cs (step pd c s)"

fun implicit_table :: "call \<Rightarrow> bool" where
  "implicit_table (Validate (Some d)) = False"
| "implicit_table c = True"

section \<open>Quality control\<close>

text \<open>
  The text of a QC message is kept structured: the counts and percentages an f-string
  would print are the arguments of the constructor.
\<close>

datatype consistency_warning = ZeroVariance string | ObjectButNumeric string

datatype qc_message =
    MissingValuesFound nat real "(string \<times> nat) list"
  | NoMissingValues
  | DuplicatesFound nat real
  | NoDuplicates
  | OutliersDetected "(string \<times> nat \<times> real) list"
  | NoOutliers
  | ConsistencyWarnings "consistency_warning list"
  | NoConsistencyIssues

text \<open>
  What one check returns: a dictionary with the keys \<open>has_issues\<close>,
  \<open>has_warnings\<close> and \<open>message\<close>, of which the first two may be absent
  (\<open>None\<close>).
\<close>

record check_result =
  has_issues :: "bool option"
  has_warnings :: "bool option"
  message :: qc_message

record qc_summary =
  total_records :: nat
  total_columns :: nat
  issues_found :: nat
  warnings_found :: nat

record qc_result =
  passed :: bool
  issues :: "qc_message list"
  warnings :: "qc_message list"
  checks_run :: "string list"
  summary :: qc_summary

fun null_count :: "column \<Rightarrow> nat" where
  "null_count (NumCol xs) = length (filter (\<lambda>x. x = None) xs)"
| "null_count (ObjCol xs) = length (filter (\<lambda>x. x = None) xs)"

text \<open>\<open>QCChecker._check_missing_values\<close>.\<close>

definition check_missing_values :: "dataframe \<Rightarrow> check_result" where
  "check_missing_values df =
     (let missing = map (\<lambda>(n, c). (n, null_count c)) (cols df);
          missing_cols = filter (\<lambda>(n, k). k > 0) missing
      in if length missing_cols > 0
         then (let total_missing = sum_list (map snd missing_cols);
                   total_values = len_df df * length (columns df);
                   missing_pct = (real total_missing / real total_values) * 100;
                   msg = MissingValuesFound total_missing missing_pct missing_cols
               in if missing_pct > 10
                  then \<lparr>has_issues = Some True, has_warnings = None, message = msg\<rparr>
                  else \<lparr>has_issues = Some False, has_warnings = Some True, message = msg\<rparr>)
         else \<lparr>has_issues = Some False, has_warnings = None, message = NoMissingValues\<rparr>)"

text \<open>
  \<open>DataFrame.duplicated()\<close>: a row is marked when an equal row stands before it, so
  the first occurrence is not marked; nulls count as equal.
\<close>

fun duplicated_from :: "'a list \<Rightarrow> 'a list \<Rightarrow> bool list" where
  "duplicated_from seen [] = []"
| "duplicated_from seen (r # rs) = (r \<in> set seen) # duplicated_from (r # seen) rs"

definition duplicated :: "dataframe \<Rightarrow> bool list" where
  "duplicated df = duplicated_from [] (rows df)"

text \<open>\<open>QCChecker._check_duplicates\<close>.\<close>

definition check_duplicates :: "dataframe \<Rightarrow> check_result" where
  "check_duplicates df =
     (let duplicates = length (filter (\<lambda>b. b) (duplicated df))
      in if duplicates > 0
         then (let dup_pct = (real duplicates / real (len_df df)) * 100;
                   msg = DuplicatesFound duplicates dup_pct
               in if dup_pct > 5
                  then \<lparr>has_issues = Some True, has_warnings = None, message = msg\<rparr>
                  else \<lparr>has_issues = Some False, has_warnings = Some True, message = msg\<rparr>)
         else \<lparr>has_issues = Some False, has_warnings = None, message = NoDuplicates\<rparr>)"

text \<open>
  \<open>Series.quantile(q)\<close>, by linear interpolation between the two nearest of the
  sorted non-null values; \<open>None\<close> is NaN, for a column without values.
\<close>

definition quantile :: "real list \<Rightarrow> real \<Rightarrow> real option" where
  "quantile vs q =
     (let sorted_vs = sort vs; n = length sorted_vs
      in if n = 0 then None
         else (let pos = real (n - 1) * q;
                   lo = nat \<lfloor>pos\<rfloor>;
                   hi = min (lo + 1) (n - 1);
                   frac = pos - real lo
               in Some (sorted_vs ! lo + (sorted_vs ! hi - sorted_vs ! lo) * frac)))"

text \<open>\<open>round(x, 2)\<close>.\<close>

definition round2 :: "real \<Rightarrow> real" where
  "round2 x = real_of_int (round (x * 100)) / 100"

text \<open>The body of the loop of \<open>_check_outliers\<close>, for one numeric column.\<close>

definition outlier_entry :: "nat \<Rightarrow> string \<Rightarrow> real option list \<Rightarrow> (string \<times> nat \<times> real) list" where
  "outlier_entry n_rows col xs =
     (case (quantile (present xs) (1 / 4), quantile (present xs) (3 / 4)) of
        (Some Q1, Some Q3) \<Rightarrow>
          (let IQR = Q3 - Q1;
               lower_bound = Q1 - (3 / 2) * IQR;
               upper_bound = Q3 + (3 / 2) * IQR;
               outliers = length (filter (\<lambda>x. x < lower_bound \<or> x > upper_bound) (present xs))
           in if outliers > 0
              then [(col, outliers, round2 ((real outliers / real n_rows) * 100))]
              else [])
      | _ \<Rightarrow> [])"

text \<open>\<open>QCChecker._check_outliers\<close>.\<close>

definition check_outliers :: "dataframe \<Rightarrow> check_result" where
  "check_outliers df =
     (let outlier_info =
            concat (map (\<lambda>(n, c). case c of NumCol xs \<Rightarrow> outlier_entry (len_df df) n xs
                                          | ObjCol ys \<Rightarrow> []) (cols df))
      in if outlier_info \<noteq> []
         then \<lparr>has_issues = None, has_warnings = Some True,
               message = OutliersDetected outlier_info\<rparr>
         else \<lparr>has_issues = None, has_warnings = Some False, message = NoOutliers\<rparr>)"

text \<open>
  \<open>Series.std() == 0\<close>. The standard deviation is the square root of the sample
  variance of the non-null values, so it is 0 exactly when the variance is; with fewer
  than two values it is NaN, which is not equal to 0.
\<close>

definition variance :: "real list \<Rightarrow> real option" where
  "variance vs =
     (let n = length vs
      in if n < 2 then None
         else (let mean = sum_list vs / real n
               in Some (sum_list (map (\<lambda>x. (x - mean)\<^sup>2) vs) / real (n - 1))))"

definition std_is_zero :: "real list \<Rightarrow> bool" where
  "std_is_zero vs = (variance vs = Some 0)"

text \<open>
  \<open>QCChecker._check_consistency\<close>: first the numeric columns without variance,
  then the object columns that \<open>pd.to_numeric\<close> converts without raising.
\<close>

definition check_consistency :: "pandas \<Rightarrow> dataframe \<Rightarrow> check_result" where
  "check_consistency pd df =
     (let zero_var =
            concat (map (\<lambda>(n, c). case c of
                           NumCol xs \<Rightarrow> if std_is_zero (present xs) then [ZeroVariance n] else []
                         | ObjCol ys \<Rightarrow> []) (cols df));
          numeric_like =
            concat (map (\<lambda>(n, c). case c of
                           NumCol xs \<Rightarrow> []
                         | ObjCol ys \<Rightarrow>
                             if list_all (\<lambda>y. to_number pd y \<noteq> None) (present ys)
                             then [ObjectButNumeric n] else []) (cols df));
          ws = zero_var @ numeric_like
      in if ws \<noteq> []
         then \<lparr>has_issues = None, has_warnings = Some True, message = ConsistencyWarnings ws\<rparr>
         else \<lparr>has_issues = None, has_warnings = Some False, message = NoConsistencyIssues\<rparr>)"

text \<open>\<open>d[key]\<close> on a check's result: an absent key raises \<open>KeyError\<close>.\<close>

definition key :: "string \<Rightarrow> bool option \<Rightarrow> error + bool" where
  "key name v = (case v of None \<Rightarrow> Inl (Exc KeyError (Text name)) | Some b \<Rightarrow> Inr b)"

text \<open>
  \<open>QCChecker.check\<close>. The four checks run in a fixed order; each appends to
  \<open>issues\<close> or \<open>warnings\<close> as the code's conditions say.
\<close>

definition check :: "pandas \<Rightarrow> parsed_data \<Rightarrow> error + qc_result" where
  "check pd parsed =
     (case data parsed of
        None \<Rightarrow> Inl (Exc AttributeError (Text ''NoneType object has no attribute isnull''))
      | Some df \<Rightarrow>
     (let missing_result = check_missing_values df in
      case key ''has_issues'' (has_issues missing_result) of Inl e \<Rightarrow> Inl e | Inr mi \<Rightarrow>
     (let issues1 = (if mi then [message missing_result] else []);
          warnings1 = (if mi then []
                       else if has_warnings missing_result = Some True
                       then [message missing_result] else []);
          duplicate_result = check_duplicates df in
      case key ''has_issues'' (has_issues duplicate_result) of Inl e \<Rightarrow> Inl e | Inr di \<Rightarrow>
     (let issues2 = (if di then issues1 @ [message duplicate_result] else issues1);
          outlier_result = check_outliers df in
      case key ''has_warnings'' (has_warnings outlier_result) of Inl e \<Rightarrow> Inl e | Inr ow \<Rightarrow>
     (let warnings2 = (if ow then warnings1 @ [message outlier_result] else warnings1);
          consistency_result = check_consistency pd df in
      case key ''has_warnings'' (has_warnings consistency_result) of Inl e \<Rightarrow> Inl e | Inr cw \<Rightarrow>
     (let warnings3 = (if cw then warnings2 @ [message consistency_result] else warnings2);
          passed_flag = (length issues2 = 0)
      in Inr \<lparr>passed = passed_flag, issues = issues2, warnings = warnings3,
               checks_run = [''missing_values'', ''duplicates'', ''outliers'', ''consistency''],
               summary = \<lparr>total_records = len_df df,
                           total_columns = length (columns df),
                           issues_found = length issues2,
                           warnings_found = length warnings3\<rparr>\<rparr>))))))"

section \<open>Standardizer\<close>

subsection \<open>Operations on tables\<close>

text \<open>
  \<open>df.reindex(sorted(df.columns), axis=1)\<close>: the columns in the order of their
  sorted labels; pandas refuses to reindex an axis with a repeated label.
\<close>

definition reindex_sorted :: "dataframe \<Rightarrow> error + dataframe" where
  "reindex_sorted df =
     (if \<not> distinct (columns df)
      then Inl (Exc ValueError (Text ''cannot reindex on an axis with duplicate labels''))
      else Inr (df\<lparr>cols := sort_key fst (cols df)\<rparr>))"

definition select :: "bool list \<Rightarrow> 'a list \<Rightarrow> 'a list" where
  "select keep xs = map snd (filter fst (zip keep xs))"

fun select_col :: "bool list \<Rightarrow> column \<Rightarrow> column" where
  "select_col keep (NumCol xs) = NumCol (select keep xs)"
| "select_col keep (ObjCol xs) = ObjCol (select keep xs)"

text \<open>\<open>df.dropna(how='all')\<close>: a row stays when one of its cells is not null.\<close>

definition dropna_all :: "dataframe \<Rightarrow> dataframe" where
  "dropna_all df =
     (let keep = map (\<lambda>i. list_ex (\<lambda>(n, c). cell_at c i \<noteq> Null) (cols df)) [0..<len_df df]
      in \<lparr>index = select keep (index df),
          cols = map (\<lambda>(n, c). (n, select_col keep c)) (cols df)\<rparr>)"

text \<open>\<open>df.reset_index(drop=True)\<close>.\<close>

definition reset_index :: "dataframe \<Rightarrow> dataframe" where
  "reset_index df = df\<lparr>index := map int [0..<len_df df]\<rparr>"

text \<open>\<open>pd.to_numeric(series, errors='coerce')\<close> and \<open>series.astype(str)\<close>.\<close>

fun to_numeric_coerce :: "pandas \<Rightarrow> column \<Rightarrow> column" where
  "to_numeric_coerce pd (NumCol xs) = NumCol xs"
| "to_numeric_coerce pd (ObjCol xs) =
     NumCol (map (\<lambda>x. case x of None \<Rightarrow> None | Some y \<Rightarrow> to_number pd y) xs)"

fun astype_str :: "pandas \<Rightarrow> column \<Rightarrow> column" where
  "astype_str pd (NumCol xs) =
     ObjCol (map (\<lambda>x. case x of None \<Rightarrow> Some ''nan'' | Some r \<Rightarrow> Some (number_str pd r)) xs)"
| "astype_str pd (ObjCol xs) =
     ObjCol (map (\<lambda>x. case x of None \<Rightarrow> Some ''nan'' | Some y \<Rightarrow> Some y) xs)"

text \<open>
  \<open>if name in df.columns: df[name] = f(df[name])\<close>: the column is replaced in the
  table, at its place.
\<close>

definition convert_column :: "string \<Rightarrow> (column \<Rightarrow> column) \<Rightarrow> dataframe \<Rightarrow> dataframe" where
  "convert_column name f df =
     (case map_of (cols df) name of
        None \<Rightarrow> df
      | Some c \<Rightarrow> df\<lparr>cols := AList.update name (f c) (cols df)\<rparr>)"

definition standardize_electrical :: "pandas \<Rightarrow> dataframe \<Rightarrow> dataframe" where
  "standardize_electrical pd df =
     convert_column ''resistivity_ohm_m'' (to_numeric_coerce pd)
       (convert_column ''depth_m'' (to_numeric_coerce pd)
          (convert_column ''station_id'' (astype_str pd) df))"

definition standardize_seismic :: "pandas \<Rightarrow> dataframe \<Rightarrow> dataframe" where
  "standardize_seismic pd df =
     convert_column ''amplitude'' (to_numeric_coerce pd)
       (convert_column ''time_ms'' (to_numeric_coerce pd)
          (convert_column ''trace_number'' (to_numeric_coerce pd) df))"

definition standardize_radar :: "pandas \<Rightarrow> dataframe \<Rightarrow> dataframe" where
  "standardize_radar pd df =
     convert_column ''amplitude'' (to_numeric_coerce pd)
       (convert_column ''sample_number'' (to_numeric_coerce pd)
          (convert_column ''trace_number'' (to_numeric_coerce pd) df))"

subsection \<open>Objects and references\<close>

text \<open>
  Tables and dictionaries are objects: a variable holds a reference, and two
  variables may hold the same one. The store maps the references in use to their
  objects; a new object takes the next free reference.
\<close>

datatype obj = Frame dataframe | Dict metadata

record store =
  objs :: "nat \<Rightarrow> obj option"
  next_ref :: nat

definition wf_store :: "store \<Rightarrow> bool" where
  "wf_store h = (\<forall>a. next_ref h \<le> a \<longrightarrow> objs h a = None)"

definition alloc :: "store \<Rightarrow> obj \<Rightarrow> nat \<times> store" where
  "alloc h ob = (next_ref h, h\<lparr>objs := (objs h)(next_ref h \<mapsto> ob), next_ref := Suc (next_ref h)\<rparr>)"

definition put :: "store \<Rightarrow> nat \<Rightarrow> obj \<Rightarrow> store" where
  "put h a ob = h\<lparr>objs := (objs h)(a \<mapsto> ob)\<rparr>"

text \<open>The dictionary \<open>{'metadata': ..., 'data': ...}\<close>, holding two references.\<close>

record parsed_ref =
  metadata_ref :: nat
  data_ref :: nat

definition no_frame :: error where
  "no_frame = Exc AttributeError (Text ''object is not a DataFrame'')"

definition no_dict :: error where
  "no_dict = Exc AttributeError (Text ''object is not a dict'')"

text \<open>
  \<open>Standardizer._apply_common_standards\<close>: each of the three pandas calls returns a
  new table and leaves the one it was called on as it was.
\<close>

definition apply_common_standards :: "store \<Rightarrow> nat \<Rightarrow> (error + nat) \<times> store" where
  "apply_common_standards h a =
     (case objs h a of
        Some (Frame df) \<Rightarrow>
          (case reindex_sorted df of
             Inl e \<Rightarrow> (Inl e, h)
           | Inr df1 \<Rightarrow>
               (let (a1, h1) = alloc h (Frame df1);
                    (a2, h2) = alloc h1 (Frame (dropna_all df1));
                    (a3, h3) = alloc h2 (Frame (reset_index (dropna_all df1)))
                in (Inr a3, h3)))
      | _ \<Rightarrow> (Inl no_frame, h))"

text \<open>
  The type-specific methods assign to columns of the table they are given, in place.
\<close>

definition in_place :: "(dataframe \<Rightarrow> dataframe) \<Rightarrow> store \<Rightarrow> nat \<Rightarrow> (error + nat) \<times> store" where
  "in_place f h a =
     (case objs h a of
        Some (Frame df) \<Rightarrow> (Inr a, put h a (Frame (f df)))
      | _ \<Rightarrow> (Inl no_frame, h))"

text \<open>
  \<open>Standardizer.standardize\<close>: the table and the metadata dictionary are copied
  first; everything after works on the copies.
\<close>

definition standardize :: "pandas \<Rightarrow> string \<Rightarrow> store \<Rightarrow> parsed_ref \<Rightarrow> string
    \<Rightarrow> (error + parsed_ref) \<times> store" where
  "standardize pd now h parsed_data data_type =
     (case objs h (data_ref parsed_data) of
        Some (Frame df0) \<Rightarrow>
          (case objs h (metadata_ref parsed_data) of
             Some (Dict md0) \<Rightarrow>
               (let (df, h1) = alloc h (Frame df0);
                    (md, h2) = alloc h1 (Dict md0);
                    h3 = put h2 md (Dict (AList.update ''standardized_at'' (MStr now) md0));
                    h4 = put h3 md (Dict (AList.update ''standardization_version'' (MStr ''1.0'')
                           (AList.update ''standardized_at'' (MStr now) md0)));
                    h5 = put h4 md (Dict (AList.update ''data_type'' (MStr data_type)
                           (AList.update ''standardization_version'' (MStr ''1.0'')
                              (AList.update ''standardized_at'' (MStr now) md0))))
                in case apply_common_standards h5 df of
                     (Inl e, h6) \<Rightarrow> (Inl e, h6)
                   | (Inr df', h6) \<Rightarrow>
                       (case (if data_type = ''electrical''
                              then in_place (standardize_electrical pd) h6 df'
                              else if data_type = ''seismic''
                              then in_place (standardize_seismic pd) h6 df'
                              else if data_type = ''radar''
                              then in_place (standardize_radar pd) h6 df'
                              else (Inr df', h6)) of
                          (Inl e, h7) \<Rightarrow> (Inl e, h7)
                        | (Inr df'', h7) \<Rightarrow>
                            (Inr \<lparr>metadata_ref = md, data_ref = df''\<rparr>, h7)))
           | _ \<Rightarrow> (Inl no_dict, h))
      | _ \<Rightarrow> (Inl no_frame, h))"

subsection \<open>Writing the output\<close>

text \<open>\<open>Standardizer.__init__\<close>.\<close>

record standardizer =
  output_format :: string

definition supported_formats :: "string list" where
  "supported_formats = [''csv'', ''json'', ''excel'', ''parquet'']"

definition new_standardizer :: "string \<Rightarrow> error + standardizer" where
  "new_standardizer fmt =
     (if fmt \<notin> set supported_formats
      then Inl (Exc ValueError (Text ''Unsupported output format''))
      else Inr \<lparr>output_format = fmt\<rparr>)"

text \<open>The function \<open>convert_numpy_types\<close> local to \<open>write_output\<close>.\<close>

fun convert_numpy_types :: "mvalue \<Rightarrow> mvalue" where
  "convert_numpy_types (NpInt i) = MInt i"
| "convert_numpy_types (NpFloat r) = MFloat r"
| "convert_numpy_types NpNaN = MNaN"
| "convert_numpy_types (NpArray xs) = MList (map MFloat xs)"
| "convert_numpy_types (MDict kvs) = MDict (map (\<lambda>(k, v). (k, convert_numpy_types v)) kvs)"
| "convert_numpy_types (MList xs) = MList (map convert_numpy_types xs)"
| "convert_numpy_types (MTuple xs) = MList (map convert_numpy_types xs)"
| "convert_numpy_types v = v"

text \<open>
  Whether \<open>json.dump\<close> accepts a value: Python scalars, lists, tuples and
  dictionaries of such; a numpy float is a Python float, a numpy integer or array and
  any other object is refused with \<open>TypeError\<close>.
\<close>

fun json_serializable :: "mvalue \<Rightarrow> bool" where
  "json_serializable (MList xs) = list_all json_serializable xs"
| "json_serializable (MTuple xs) = list_all json_serializable xs"
| "json_serializable (MDict kvs) = list_all (\<lambda>(k, v). json_serializable v) kvs"
| "json_serializable (NpInt i) = False"
| "json_serializable (NpArray xs) = False"
| "json_serializable (MOpaque n) = False"
| "json_serializable v = True"

text \<open>
  What the file system and the pandas writers answer during \<open>write_output\<close>:
  \<open>None\<close> when the call returns, the exception when it raises.
\<close>

record io =
  mkdir :: "string \<Rightarrow> error option"
  write_table :: "string \<Rightarrow> dataframe \<Rightarrow> path \<Rightarrow> error option"
  open_write :: "path \<Rightarrow> error option"
  write_text :: "path \<Rightarrow> error option"

definition not_serializable :: error where
  "not_serializable = Exc TypeError (Text ''Object is not JSON serializable'')"

text \<open>The \<open>if\<close>/\<open>elif\<close> chain that writes the data file.\<close>

definition write_data_file :: "standardizer \<Rightarrow> io \<Rightarrow> parsed_data \<Rightarrow> path \<Rightarrow> error option" where
  "write_data_file st env d output_path =
     (if output_format st \<in> {''csv'', ''json'', ''excel'', ''parquet''}
      then (case data d of
              None \<Rightarrow> Some (Exc AttributeError (Text ''NoneType object has no attribute''))
            | Some df \<Rightarrow> write_table env (output_format st) df output_path)
      else None)"

text \<open>\<open>output_path.parent / f"{output_path.stem}_metadata.json"\<close>.\<close>

definition metadata_path :: "path \<Rightarrow> path" where
  "metadata_path p = \<lparr>parent = parent p, stem = stem p @ ''_metadata'', suffix = ''.json''\<rparr>"

text \<open>\<open>Standardizer.write_output\<close>; no call in it is inside a \<open>try\<close>.\<close>

definition write_output :: "standardizer \<Rightarrow> io \<Rightarrow> parsed_data \<Rightarrow> path \<Rightarrow> bool \<Rightarrow> error + unit" where
  "write_output st env d output_path include_metadata =
     (case mkdir env (parent output_path) of
        Some e \<Rightarrow> Inl e
      | None \<Rightarrow>
          (case write_data_file st env d output_path of
             Some e \<Rightarrow> Inl e
           | None \<Rightarrow>
               if include_metadata \<and> metadata d \<noteq> []
               then (let metadata_json = convert_numpy_types (MDict (metadata d))
                     in case open_write env (metadata_path output_path) of
                          Some e \<Rightarrow> Inl e
                        | None \<Rightarrow>
                            if \<not> json_serializable metadata_json then Inl not_serializable
                            else (case write_text env (metadata_path output_path) of
                                    Some e \<Rightarrow> Inl e
                                  | None \<Rightarrow> Inr ()))
               else Inr ()))"

section \<open>Example inputs\<close>

text \<open>
  An instance of the pandas functions, enough to run the model on the examples: it
  reads the one CSV text below, converts strings of decimal digits to numbers and
  prints the integer part of a number.
\<close>

definition example_csv :: string where
  "example_csv = ''station,depth,resistivity'' @ [CHR 0x0A] @
                 ''S001,0.5,150.2'' @ [CHR 0x0A] @
                 ''S001,1.0,145.8'' @ [CHR 0x0A] @
                 ''S002,0.5,220.1'' @ [CHR 0x0A]"

definition example_raw_frame :: dataframe where
  "example_raw_frame =
     \<lparr>index = [0, 1, 2],
      cols = [(''station'', ObjCol [Some ''S001'', Some ''S001'', Some ''S002'']),
              (''depth'', NumCol [Some (1 / 2), Some 1, Some (1 / 2)]),
              (''resistivity'', NumCol [Some (1502 / 10), Some (1458 / 10), Some (2201 / 10)])]\<rparr>"

definition example_frame :: dataframe where
  "example_frame =
     \<lparr>index = [0, 1, 2],
      cols = [(''station_id'', ObjCol [Some ''S001'', Some ''S001'', Some ''S002'']),
              (''depth_m'', NumCol [Some (1 / 2), Some 1, Some (1 / 2)]),
              (''resistivity_ohm_m'', NumCol [Some (1502 / 10), Some (1458 / 10), Some (2201 / 10)])]\<rparr>"

definition digits_value :: "string \<Rightarrow> real option" where
  "digits_value str =
     (if str \<noteq> [] \<and> list_all (\<lambda>c. c \<in> set ''0123456789'') str
      then Some (real (foldl (\<lambda>n c. 10 * n + (of_char c - 48)) 0 str))
      else None)"

fun decimal :: "nat \<Rightarrow> nat \<Rightarrow> string" where
  "decimal 0 n = []"
| "decimal (Suc k) n =
     (if n < 10 then [char_of (48 + n)] else decimal k (n div 10) @ [char_of (48 + n mod 10)])"

definition example_pandas :: pandas where
  "example_pandas =
     \<lparr>read_csv = (\<lambda>txt. if txt = example_csv then Inr example_raw_frame
                          else Inl (Exc ValueError (Text ''No columns to parse from file''))),
      to_number = digits_value,
      number_str = (\<lambda>r. decimal 20 (nat \<lfloor>r\<rfloor>))\<rparr>"

definition example_path :: path where
  "example_path = \<lparr>parent = ''data'', stem = ''survey'', suffix = ''.csv''\<rparr>"

definition example_parser :: parser where
  "example_parser =
     \<lparr>metadata = [(''file_name'', MStr ''survey.csv''),
                  (''file_path'', MStr ''data/survey.csv''),
                  (''created_at'', MStr ''2024-01-01T00:00:00'')],
      data = None,
      variant = Electrical, file_path = example_path, encoding = ''utf-8'', raw_data = None,
      is_loaded = False, is_parsed = False, is_validated = False\<rparr>"

text \<open>Twenty rows of which the last repeats the first: 5 percent of duplicates.\<close>

definition twenty_rows :: dataframe where
  "twenty_rows =
     \<lparr>index = [0, 1, 2, 3, 4, 5, 6, 7, 8, 9, 10, 11, 12, 13, 14, 15, 16, 17, 18, 19],
      cols = [(''station_id'', ObjCol [Some ''S01'', Some ''S02'', Some ''S03'', Some ''S04'', Some ''S05'', Some ''S06'', Some ''S07'', Some ''S08'', Some ''S09'', Some ''S10'', Some ''S11'', Some ''S12'', Some ''S13'', Some ''S14'', Some ''S15'', Some ''S16'', Some ''S17'', Some ''S18'', Some ''S19'', Some ''S01''])]\<rparr>"




text \<open>A store holding one parsed result: the table at 0, its metadata at 1.\<close>

definition example_metadata :: metadata where
  "example_metadata = [(''file_name'', MStr ''survey.csv''), (''data_type'', MStr ''electrical_resistivity'')]"

definition example_store :: store where
  "example_store =
     \<lparr>objs = (\<lambda>a. if a = 0 then Some (Frame example_frame)
                   else if a = 1 then Some (Dict example_metadata) else None),
      next_ref = 2\<rparr>"

definition example_parsed :: parsed_ref where
  "example_parsed = \<lparr>metadata_ref = 1, data_ref = 0\<rparr>"

text \<open>A file system and writers that accept every call.\<close>

definition example_io :: io where
  "example_io =
     \<lparr>mkdir = (\<lambda>d. None), write_table = (\<lambda>fmt df p. None),
      open_write = (\<lambda>p. None), write_text = (\<lambda>p. None)\<rparr>"


text \<open>A file system that refuses to create the output directory.\<close>

definition failing_io :: io where
  "failing_io =
     \<lparr>mkdir = (\<lambda>d. Some (Exc PermissionError (Text ''Permission denied''))),
      write_table = (\<lambda>fmt df p. None),
      open_write = (\<lambda>p. None), write_text = (\<lambda>p. None)\<rparr>"

text \<open>A standardized result whose metadata holds an object that is not a JSON value.\<close>

definition opaque_data :: parsed_data where
  "opaque_data = \<lparr>metadata = [(''acquired'', MOpaque ''Timestamp'')], data = Some example_frame\<rparr>"

section \<open>Predicates of the properties\<close>

text \<open>
  The order of the lifecycle flags, with and without the \<open>validated\<close> flag, and
  the order between two states of a parser: every flag set in the first is set in the
  second.
\<close>

definition lifecycle_inv :: "parser \<Rightarrow> bool" where
  "lifecycle_inv s =
     ((data s \<noteq> None \<longrightarrow> is_parsed s) \<and> (is_validated s \<longrightarrow> is_parsed s)
      \<and> (is_parsed s \<longrightarrow> is_loaded s))"

definition weak_inv :: "parser \<Rightarrow> bool" where
  "weak_inv s = ((data s \<noteq> None \<longrightarrow> is_parsed s) \<and> (is_parsed s \<longrightarrow> is_loaded s))"

definition flags_le :: "parser \<Rightarrow> parser \<Rightarrow> bool" where
  "flags_le s s' =
     ((is_loaded s \<longrightarrow> is_loaded s') \<and> (is_parsed s \<longrightarrow> is_parsed s')
      \<and> (is_validated s \<longrightarrow> is_validated s'))"



text \<open>
  What \<open>standardize\<close> is to leave in the copies: the metadata with its three stamps,
  the table after the common normalization, and the type-specific step chosen by the
  tag.
\<close>

definition stamped :: "string \<Rightarrow> string \<Rightarrow> metadata \<Rightarrow> metadata" where
  "stamped now data_type md =
     AList.update ''data_type'' (MStr data_type)
       (AList.update ''standardization_version'' (MStr ''1.0'')
          (AList.update ''standardized_at'' (MStr now) md))"

definition common_standards :: "dataframe \<Rightarrow> dataframe" where
  "common_standards df = reset_index (dropna_all (df\<lparr>cols := sort_key fst (cols df)\<rparr>))"

definition variant_step :: "pandas \<Rightarrow> string \<Rightarrow> dataframe \<Rightarrow> dataframe" where
  "variant_step pd data_type =
     (if data_type = ''electrical'' then standardize_electrical pd
      else if data_type = ''seismic'' then standardize_seismic pd
      else if data_type = ''radar'' then standardize_radar pd
      else (\<lambda>df. df))"

section \<open>Properties of the parsers\<close>

subsection \<open>Construction\<close>

lemmas example_defs = example_parser_def example_path_def example_pandas_def example_csv_def
  example_raw_frame_def example_frame_def

lemma init_ok_fields:
  "init v p enc now st = Inr s \<Longrightarrow>
     data s = None \<and> \<not> is_loaded s \<and> \<not> is_parsed s \<and> \<not> is_validated s \<and> variant s = v"
  by (auto simp: init_def split: sum.splits)

lemma init_example:
  "init Electrical example_path ''utf-8'' ''2024-01-01T00:00:00'' (RegularFile 57) = Inr example_parser"
  by (simp add: init_def validate_file_path_def example_parser_def example_path_def path_name_def path_str_def)

text \<open>
  Claim C3, as amended. For every variant, constructing a parser raises at once on a
  path that does not exist and on an empty file. On the empty file the error is a
  \<open>ParserError\<close>; on the missing path it is Python's \<open>FileNotFoundError\<close>, as the
  docstrings of \<open>__init__\<close> and \<open>_validate_file_path\<close> say, which is not in the
  \<open>ParserError\<close> family.
\<close>

theorem init_errors:
  "init v p enc now Missing = Inl (Exc FileNotFoundError (FileNotFound (path_str p)))
   \<and> \<not> isinstance (Exc FileNotFoundError (FileNotFound (path_str p))) ParserError
   \<and> init v p enc now (RegularFile 0) = Inl (Exc ParserError (FileEmpty (path_str p)))
   \<and> isinstance (Exc ParserError (FileEmpty (path_str p))) ParserError"
  by (simp add: init_def validate_file_path_def isinstance_def)

theorem init_errors_witness:
  "init Electrical example_path ''utf-8'' ''2024-01-01T00:00:00'' Missing
     = Inl (Exc FileNotFoundError (FileNotFound ''data/survey.csv''))
   \<and> init Electrical example_path ''utf-8'' ''2024-01-01T00:00:00'' (RegularFile 0)
     = Inl (Exc ParserError (FileEmpty ''data/survey.csv''))"
  using init_errors [of Electrical example_path "''utf-8''" "''2024-01-01T00:00:00''"]
  by (simp add: example_path_def path_str_def path_name_def)

text \<open>
  The claim as written fails: on a missing path the constructor's error is not a
  \<open>ParserError\<close>.
\<close>

theorem init_missing_counterexample:
  "init Electrical example_path ''utf-8'' ''2024-01-01T00:00:00'' Missing
     = Inl (Exc FileNotFoundError (FileNotFound ''data/survey.csv''))
   \<and> \<not> isinstance (Exc FileNotFoundError (FileNotFound ''data/survey.csv'')) ParserError"
  by (simp add: init_def validate_file_path_def isinstance_def example_path_def path_str_def path_name_def)

subsection \<open>Validation before parsing\<close>

text \<open>
  Claim C7. For each of the three variants, \<open>validate()\<close> without a table on a
  freshly constructed parser, also after \<open>load()\<close>, raises a \<open>ValidationError\<close>
  and leaves the parser as it was; the error is neither a \<open>FileFormatError\<close> nor an
  I/O error.
\<close>

theorem validate_before_parse:
  "init v p enc now st = Inr s \<Longrightarrow>
     validate None s
       = (Inl (Exc ValidationError (Text ''No data to validate. Call parse() first.'')), s)
     \<and> isinstance (Exc ValidationError (Text ''No data to validate. Call parse() first.''))
           ValidationError
     \<and> \<not> isinstance (Exc ValidationError (Text ''No data to validate. Call parse() first.''))
           FileFormatError
     \<and> \<not> isinstance (Exc ValidationError (Text ''No data to validate. Call parse() first.''))
           OSError
     \<and> fst (validate None (snd (load rd s)))
       = Inl (Exc ValidationError (Text ''No data to validate. Call parse() first.''))"
  using init_ok_fields[of v p enc now st s]
  by (auto simp: validate_def load_def isinstance_def split: sum.splits)

theorem validate_before_parse_witness:
  "init Electrical example_path ''utf-8'' ''2024-01-01T00:00:00'' (RegularFile 57) = Inr example_parser
   \<and> fst (validate None example_parser)
       = Inl (Exc ValidationError (Text ''No data to validate. Call parse() first.''))"
  using validate_before_parse[OF init_example] init_example by simp


subsection \<open>The lifecycle flags\<close>

lemma load_flags: "load rd s = (r, s') \<Longrightarrow>
   data s' = data s \<and> metadata s' = metadata s \<and> variant s' = variant s \<and> is_parsed s' = is_parsed s \<and> is_validated s' = is_validated s
   \<and> (is_loaded s \<longrightarrow> is_loaded s') \<and> (r = Inr () \<longrightarrow> is_loaded s') \<and> (\<forall>e. r = Inl e \<longrightarrow> s' = s)"
  by (auto simp: load_def split: sum.splits)

lemma parse_flags: "parse pd s = (r, s') \<Longrightarrow>
   is_loaded s' = is_loaded s \<and> is_validated s' = is_validated s \<and> variant s' = variant s
   \<and> (is_parsed s \<longrightarrow> is_parsed s')
   \<and> (\<forall>e. r = Inl e \<longrightarrow> s' = s)
   \<and> (\<forall>x. r = Inr x \<longrightarrow> is_loaded s \<and> is_parsed s' \<and> data s' \<noteq> None \<and> x = \<lparr>metadata = metadata s', data = data s'\<rparr>)"
  by (auto simp: parse_def split: sum.splits if_splits prod.splits)

lemma validate_flags: "validate arg s = (r, s') \<Longrightarrow>
   is_loaded s' = is_loaded s \<and> is_parsed s' = is_parsed s \<and> data s' = data s \<and> metadata s' = metadata s \<and> variant s' = variant s
   \<and> (is_validated s \<longrightarrow> is_validated s')
   \<and> (\<forall>e. r = Inl e \<longrightarrow> s' = s)
   \<and> (\<forall>b. r = Inr b \<longrightarrow> is_validated s' \<and> (arg = None \<longrightarrow> data s \<noteq> None))"
  by (auto simp: validate_def split: sum.splits option.splits)


lemma load_inv: "lifecycle_inv s \<Longrightarrow> lifecycle_inv (snd (load rd s))"
  by (auto simp: lifecycle_inv_def load_def split: sum.splits)

lemma parse_inv: "lifecycle_inv s \<Longrightarrow> lifecycle_inv (snd (parse pd s))"
  by (auto simp: lifecycle_inv_def parse_def split: sum.splits if_splits prod.splits)

lemma validate_inv: "lifecycle_inv s \<Longrightarrow> lifecycle_inv (snd (validate None s))"
  by (auto simp: lifecycle_inv_def validate_def split: sum.splits option.splits)

lemma process_unfold:
  "snd (process pd rd skip s) =
     (let s1 = (if \<not> is_loaded s then snd (load rd s) else s) in
      if \<not> is_loaded s \<and> isl (fst (load rd s)) then s1 else
      let s2 = (if \<not> is_parsed s1 then snd (parse pd s1) else s1) in
      if \<not> is_parsed s1 \<and> isl (fst (parse pd s1)) then s2 else
      if \<not> skip \<and> \<not> is_validated s2 then snd (validate None s2) else s2)"
proof (cases "is_loaded s")
  case True
  show ?thesis
  proof (cases "is_parsed s")
    case True
    with \<open>is_loaded s\<close> show ?thesis
      by (cases "validate None s") (simp add: process_def split: sum.split)
  next
    case False
    obtain r2 s2 where P: "parse pd s = (r2, s2)" by fastforce
    obtain r3 s3 where V: "validate None s2 = (r3, s3)" by fastforce
    from False \<open>is_loaded s\<close> P V show ?thesis
      by (cases r2; cases r3) (simp_all add: process_def)
  qed
next
  case False
  obtain r1 s1 where L: "load rd s = (r1, s1)" by fastforce
  obtain r2 s2 where P: "parse pd s1 = (r2, s2)" by fastforce
  obtain r3 s3 where V: "validate None s2 = (r3, s3)" by fastforce
  obtain r4 s4 where V1: "validate None s1 = (r4, s4)" by fastforce
  from False L P V V1 show ?thesis
    by (cases r1; cases r2; cases r3; cases r4) (simp_all add: process_def)
qed

lemma process_inv: "lifecycle_inv s \<Longrightarrow> lifecycle_inv (snd (process pd rd skip s))"
  unfolding process_unfold Let_def
  by (simp add: load_inv parse_inv validate_inv)

lemma load_winv: "weak_inv s \<Longrightarrow> weak_inv (snd (load rd s))"
  by (auto simp: weak_inv_def load_def split: sum.splits)

lemma parse_winv: "weak_inv s \<Longrightarrow> weak_inv (snd (parse pd s))"
  by (auto simp: weak_inv_def parse_def split: sum.splits if_splits prod.splits)

lemma validate_winv: "weak_inv s \<Longrightarrow> weak_inv (snd (validate arg s))"
  by (auto simp: weak_inv_def validate_def split: sum.splits option.splits)

lemma process_winv: "weak_inv s \<Longrightarrow> weak_inv (snd (process pd rd skip s))"
  unfolding process_unfold Let_def
  by (simp add: load_winv parse_winv validate_winv)

lemma step_winv: "weak_inv s \<Longrightarrow> weak_inv (step pd c s)"
  by (cases c) (simp_all add: load_winv parse_winv validate_winv process_winv)

lemma step_inv: "lifecycle_inv s \<Longrightarrow> implicit_table c \<Longrightarrow> lifecycle_inv (step pd c s)"
proof (cases c)
  case (Validate arg)
  assume "lifecycle_inv s" "implicit_table c"
  with Validate show ?thesis by (cases arg) (simp_all add: validate_inv)
qed (simp_all add: load_inv parse_inv process_inv)

lemma run_winv: "weak_inv s \<Longrightarrow> weak_inv (run pd cs s)"
  by (induction cs arbitrary: s) (simp_all add: step_winv)

lemma run_inv: "lifecycle_inv s \<Longrightarrow> list_all implicit_table cs \<Longrightarrow> lifecycle_inv (run pd cs s)"
  by (induction cs arbitrary: s) (simp_all add: step_inv)

lemma flags_le_refl: "flags_le s s" by (simp add: flags_le_def)
lemma flags_le_trans: "flags_le a b \<Longrightarrow> flags_le b c \<Longrightarrow> flags_le a c" by (auto simp: flags_le_def)

lemma load_mono: "flags_le s (snd (load rd s))"
  by (auto simp: flags_le_def load_def split: sum.splits)
lemma parse_mono: "flags_le s (snd (parse pd s))"
  by (auto simp: flags_le_def parse_def split: sum.splits if_splits prod.splits)
lemma validate_mono: "flags_le s (snd (validate arg s))"
  by (auto simp: flags_le_def validate_def split: sum.splits option.splits)
lemma process_mono: "flags_le s (snd (process pd rd skip s))"
  unfolding process_unfold Let_def
  by (auto intro: flags_le_refl flags_le_trans[OF load_mono parse_mono] flags_le_trans[OF load_mono validate_mono]
        flags_le_trans[OF parse_mono validate_mono] load_mono parse_mono validate_mono
        flags_le_trans[OF load_mono flags_le_trans[OF parse_mono validate_mono]])
lemma step_mono: "flags_le s (step pd c s)"
  by (cases c) (simp_all add: load_mono parse_mono validate_mono process_mono)
lemma run_mono: "flags_le s (run pd cs s)"
proof (induction cs arbitrary: s)
  case Nil show ?case by (simp add: flags_le_refl)
next
  case (Cons c cs)
  show ?case using flags_le_trans[OF step_mono Cons.IH] by simp
qed

lemma run_append: "run pd (cs @ ds) s = run pd ds (run pd cs s)"
  by (induction cs arbitrary: s) simp_all

text \<open>
  Claim C2, as amended. In every state a parser reaches from its construction by any
  sequence of \<open>load\<close>, \<open>parse\<close>, \<open>validate\<close> and \<open>process\<close> calls,
  \<open>is_parsed\<close> implies \<open>is_loaded\<close>, and no call un-sets a flag. \<open>is_validated\<close>
  implies \<open>is_parsed\<close> in the sequences in which \<open>validate\<close> is never given a
  table of the caller's: \<open>validate(table)\<close> checks that table and sets the flag
  whatever the parser has loaded or parsed.
\<close>

theorem lifecycle_flags:
  "init v p enc now st = Inr s0 \<Longrightarrow>
     (is_parsed (run pd cs s0) \<longrightarrow> is_loaded (run pd cs s0))
     \<and> (list_all implicit_table cs \<longrightarrow>
          (is_validated (run pd cs s0) \<longrightarrow> is_parsed (run pd cs s0)))
     \<and> flags_le (run pd cs s0) (run pd (cs @ ds) s0)"
proof -
  assume a: "init v p enc now st = Inr s0"
  have f: "data s0 = None \<and> \<not> is_loaded s0 \<and> \<not> is_parsed s0 \<and> \<not> is_validated s0"
    using init_ok_fields[OF a] by simp
  have w: "weak_inv s0" using f by (simp add: weak_inv_def)
  have l: "lifecycle_inv s0" using f by (simp add: lifecycle_inv_def)
  have 1: "is_parsed (run pd cs s0) \<longrightarrow> is_loaded (run pd cs s0)"
    using run_winv[OF w, of pd cs] by (simp add: weak_inv_def)
  have 2: "list_all implicit_table cs \<longrightarrow>
      (is_validated (run pd cs s0) \<longrightarrow> is_parsed (run pd cs s0))"
    using run_inv[OF l, of cs pd] by (auto simp: lifecycle_inv_def)
  have 3: "flags_le (run pd cs s0) (run pd (cs @ ds) s0)"
    by (simp add: run_append run_mono)
  from 1 2 3 show ?thesis by blast
qed

theorem lifecycle_witness:
  "init Electrical example_path ''utf-8'' ''2024-01-01T00:00:00'' (RegularFile 57) = Inr example_parser
   \<and> is_validated (run example_pandas [Load (Inr example_csv), Parse, Validate None] example_parser)
   \<and> is_parsed (run example_pandas [Load (Inr example_csv), Parse, Validate None] example_parser)
   \<and> is_loaded (run example_pandas [Load (Inr example_csv), Parse, Validate None] example_parser)"
proof -
  let ?s = "run example_pandas [Load (Inr example_csv), Parse, Validate None] example_parser"
  have v: "is_validated ?s"
    by (simp add: load_def parse_def parse_body_def standardize_column_names_def columns_def
        range_entry_def col_min_def col_max_def count_entry_def len_df_def
        validate_def validate_checks_def check_required_columns_def
        out_of_range_def sign_check_def getitem_def example_defs)
  from lifecycle_flags[OF init_example,
      where pd = example_pandas and cs = "[Load (Inr example_csv), Parse, Validate None]" and ds = "[]"] v
  show ?thesis by (simp add: init_example)
qed

text \<open>
  The claim as written fails: a fresh parser that validates a table passed to it is
  validated, and has neither loaded nor parsed anything.
\<close>

theorem explicit_table_counterexample:
  "init Electrical example_path ''utf-8'' ''2024-01-01T00:00:00'' (RegularFile 57) = Inr example_parser
   \<and> is_validated (run example_pandas [Validate (Some example_frame)] example_parser)
   \<and> \<not> is_parsed (run example_pandas [Validate (Some example_frame)] example_parser)"
  by (simp add: init_example validate_def validate_checks_def check_required_columns_def
      columns_def out_of_range_def sign_check_def getitem_def example_frame_def example_parser_def)

subsection \<open>Running the pipeline twice\<close>

text \<open>
  Claim C8. When \<open>process\<close> succeeds on a parser, in any state, a second call with
  the same \<open>skip_validation\<close> succeeds as well, whatever the file and pandas would
  answer by then, returns the same result and leaves the parser's fields as the first
  call left them.
\<close>

theorem process_idempotent:
  assumes "process pd rd skip s = (Inr r, s')"
  shows "process pd' rd' skip s' = (Inr r, s')"
proof -
  obtain r1 s1 where L: "(if \<not> is_loaded s then load rd s else (Inr (), s)) = (r1, s1)" by fastforce
  obtain r2 s2 where P: "(if \<not> is_parsed s1 then parse pd s1
                 else (Inr \<lparr>metadata = metadata s1, data = data s1\<rparr>, s1)) = (r2, s2)" by fastforce
  from assms L have r1: "r1 = Inr ()" by (auto simp: process_def split: sum.splits prod.splits)
  from assms L P r1 obtain res where r2: "r2 = Inr res" by (auto simp: process_def split: sum.splits prod.splits)
  have l1: "is_loaded s1" using L r1 load_flags[of rd s r1 s1] by (auto split: if_splits)
  have l2: "is_loaded s2 \<and> is_parsed s2 \<and> res = \<lparr>metadata = metadata s2, data = data s2\<rparr>"
    using P r2 l1 parse_flags[of pd s1 r2 s2] by (auto split: if_splits)
  have fin: "r = res \<and> is_loaded s' \<and> is_parsed s' \<and> metadata s' = metadata s2 \<and> data s' = data s2 \<and> (skip \<or> is_validated s')"
  proof (cases "\<not> skip \<and> \<not> is_validated s2")
    case True
    obtain r3 s3 where V: "validate None s2 = (r3, s3)" by fastforce
    from assms L P r1 r2 True V have "r3 \<noteq> Inl e" for e by (auto simp: process_def split: sum.splits)
    then obtain b where r3: "r3 = Inr b" by (cases r3) auto
    from assms L P r1 r2 True V r3 have "r = res \<and> s' = s3" by (auto simp: process_def)
    then show ?thesis using validate_flags[OF V] r3 l2 by auto
  next
    case False
    from assms L P r1 r2 False have "r = res \<and> s' = s2" by (auto simp: process_def)
    then show ?thesis using False l2 by auto
  qed
  then show ?thesis using l2 by (auto simp: process_def)
qed


theorem process_idempotent_witness:
  "\<exists>r s'. process example_pandas (Inr example_csv) False example_parser = (Inr r, s')
     \<and> process example_pandas (Inl (Exc OSError (Text ''file removed''))) False s' = (Inr r, s')"
proof -
  let ?p = "process example_pandas (Inr example_csv) False example_parser"
  have "\<exists>r. fst ?p = Inr r"
    by (simp add: process_def load_def parse_def parse_body_def standardize_column_names_def columns_def
        range_entry_def col_min_def col_max_def count_entry_def len_df_def
        validate_def validate_checks_def check_required_columns_def
        out_of_range_def sign_check_def getitem_def example_defs)
  then obtain r where "fst ?p = Inr r" ..
  then have h: "?p = (Inr r, snd ?p)" by (metis prod.collapse)
  from process_idempotent[OF h] h show ?thesis by blast
qed

subsection \<open>The range check\<close>
















section \<open>Properties of the quality control\<close>

lemma has_issues_missing: "\<exists>b. has_issues (check_missing_values df) = Some b"
  by (auto simp: check_missing_values_def Let_def)

lemma has_issues_duplicates: "\<exists>b. has_issues (check_duplicates df) = Some b"
  by (auto simp: check_duplicates_def Let_def)

lemma has_warnings_outliers: "\<exists>b. has_warnings (check_outliers df) = Some b"
  by (auto simp: check_outliers_def Let_def)

lemma has_warnings_consistency: "\<exists>b. has_warnings (check_consistency pd df) = Some b"
  by (auto simp: check_consistency_def Let_def)



text \<open>
  The messages that reach \<open>warnings\<close> are those of the missing-value, outlier and
  consistency checks: the message of the duplicate check is never among them, on any
  table.
\<close>

lemma message_missing: "message (check_missing_values df) \<noteq> DuplicatesFound n q"
  by (auto simp: check_missing_values_def Let_def)

lemma message_outliers: "message (check_outliers df) \<noteq> DuplicatesFound n q"
  by (auto simp: check_outliers_def Let_def)

lemma message_consistency: "message (check_consistency pd df) \<noteq> DuplicatesFound n q"
  by (auto simp: check_consistency_def Let_def)

lemma duplicates_never_warned:
  "check pd parsed = Inr r \<Longrightarrow> DuplicatesFound n q \<notin> set (warnings r)"
proof -
  assume c: "check pd parsed = Inr r"
  then obtain df where d: "data parsed = Some df" by (cases "data parsed") (auto simp: check_def)
  obtain mi where mi: "has_issues (check_missing_values df) = Some mi"
    using has_issues_missing by blast
  obtain di where di: "has_issues (check_duplicates df) = Some di"
    using has_issues_duplicates by blast
  obtain ow where ow: "has_warnings (check_outliers df) = Some ow"
    using has_warnings_outliers by blast
  obtain cw where cw: "has_warnings (check_consistency pd df) = Some cw"
    using has_warnings_consistency by blast
  have "set (warnings r) \<subseteq> {message (check_missing_values df), message (check_outliers df),
          message (check_consistency pd df)}"
    using c by (auto simp: check_def d mi di ow cw key_def Let_def split: if_splits)
  then show ?thesis
    using message_missing[of df n q] message_outliers[of df n q] message_consistency[of pd df n q]
    by auto
qed

text \<open>
  Claim C1, at a table of twenty rows with one duplicate: 5 percent.
  \<open>_check_duplicates\<close> returns its message with \<open>has_warnings\<close> set, and
  \<open>check\<close>, which reads only \<open>has_issues\<close> of that result, returns with both
  \<open>issues\<close> and \<open>warnings\<close> empty: the warning the claim describes is lost.
\<close>

theorem check_drops_duplicate_warning:
  "check_duplicates twenty_rows
     = \<lparr>has_issues = Some False, has_warnings = Some True, message = DuplicatesFound 1 5\<rparr>
   \<and> check example_pandas \<lparr>metadata = [], data = Some twenty_rows\<rparr>
     = Inr \<lparr>passed = True, issues = [], warnings = [],
            checks_run = [''missing_values'', ''duplicates'', ''outliers'', ''consistency''],
            summary = \<lparr>total_records = 20, total_columns = 1,
                        issues_found = 0, warnings_found = 0\<rparr>\<rparr>"
proof -
  have d: "check_duplicates twenty_rows
     = \<lparr>has_issues = Some False, has_warnings = Some True, message = DuplicatesFound 1 5\<rparr>"
    by (simp add: check_duplicates_def duplicated_def rows_def row_at_def len_df_def
        twenty_rows_def upt_rec Let_def)
  have m: "check_missing_values twenty_rows
     = \<lparr>has_issues = Some False, has_warnings = None, message = NoMissingValues\<rparr>"
    by (simp add: check_missing_values_def twenty_rows_def Let_def)
  have ou: "check_outliers twenty_rows
     = \<lparr>has_issues = None, has_warnings = Some False, message = NoOutliers\<rparr>"
    by (simp add: check_outliers_def twenty_rows_def Let_def)
  have co: "check_consistency example_pandas twenty_rows
     = \<lparr>has_issues = None, has_warnings = Some False, message = NoConsistencyIssues\<rparr>"
    by (simp add: check_consistency_def twenty_rows_def example_pandas_def digits_value_def Let_def)
  have "check example_pandas \<lparr>metadata = [], data = Some twenty_rows\<rparr>
     = Inr \<lparr>passed = True, issues = [], warnings = [],
            checks_run = [''missing_values'', ''duplicates'', ''outliers'', ''consistency''],
            summary = \<lparr>total_records = 20, total_columns = 1,
                        issues_found = 0, warnings_found = 0\<rparr>\<rparr>"
    by (simp add: check_def key_def d m ou co Let_def) (simp add: len_df_def columns_def twenty_rows_def)
  with d show ?thesis by simp
qed


section \<open>Properties of the standardizer\<close>

subsection \<open>What a call of standardize leaves in the store\<close>

lemmas standardize_unfold = standardize_def alloc_def put_def apply_common_standards_def
  reindex_sorted_def in_place_def Let_def stamped_def common_standards_def

lemma standardize_distinct:
  assumes d: "objs h (data_ref p) = Some (Frame df)"
    and m: "objs h (metadata_ref p) = Some (Dict md)"
    and dis: "distinct (columns df)"
  shows "fst (standardize pd now h p data_type)
           = Inr \<lparr>metadata_ref = Suc (next_ref h), data_ref = Suc (Suc (Suc (Suc (next_ref h))))\<rparr>"
    and "objs (snd (standardize pd now h p data_type)) (Suc (next_ref h))
           = Some (Dict (stamped now data_type md))"
    and "objs (snd (standardize pd now h p data_type)) (Suc (Suc (Suc (Suc (next_ref h)))))
           = Some (Frame (variant_step pd data_type (common_standards df)))"
    and "a < next_ref h \<Longrightarrow> objs (snd (standardize pd now h p data_type)) a = objs h a"
    and "next_ref (snd (standardize pd now h p data_type)) = Suc (Suc (Suc (Suc (Suc (next_ref h)))))"
    and "Suc (Suc (Suc (Suc (Suc (next_ref h))))) \<le> a \<Longrightarrow>
           objs (snd (standardize pd now h p data_type)) a = objs h a"
  by (simp_all add: standardize_unfold d m dis variant_step_def)

lemma standardize_duplicate:
  assumes d: "objs h (data_ref p) = Some (Frame df)"
    and m: "objs h (metadata_ref p) = Some (Dict md)"
    and dis: "\<not> distinct (columns df)"
  shows "fst (standardize pd now h p data_type)
           = Inl (Exc ValueError (Text ''cannot reindex on an axis with duplicate labels''))"
    and "a < next_ref h \<Longrightarrow> objs (snd (standardize pd now h p data_type)) a = objs h a"
    and "next_ref (snd (standardize pd now h p data_type)) = Suc (Suc (next_ref h))"
    and "Suc (Suc (next_ref h)) \<le> a \<Longrightarrow>
           objs (snd (standardize pd now h p data_type)) a = objs h a"
  by (simp_all add: standardize_unfold d m dis)

lemma standardize_no_frame:
  "(\<forall>df. objs h (data_ref p) \<noteq> Some (Frame df)) \<Longrightarrow>
     standardize pd now h p data_type = (Inl no_frame, h)"
  by (auto simp: standardize_def split: option.splits obj.splits)

lemma standardize_no_dict:
  "objs h (data_ref p) = Some (Frame df) \<Longrightarrow> (\<forall>md. objs h (metadata_ref p) \<noteq> Some (Dict md)) \<Longrightarrow>
     standardize pd now h p data_type = (Inl no_dict, h)"
  by (auto simp: standardize_def split: option.splits obj.splits)


lemma wf_store_allocated: "wf_store h \<Longrightarrow> objs h a = Some ob \<Longrightarrow> a < next_ref h"
  by (metis wf_store_def not_le_imp_less option.distinct(1))

text \<open>
  Claim C9. \<open>standardize\<close> does not change any object that existed before the
  call, whether it returns or raises: in particular the table and the metadata
  dictionary of its argument are as they were. When it returns, the table and the
  dictionary of the result are objects created during the call, at references different
  from those of the argument.
\<close>

theorem standardize_copies:
  "wf_store h \<Longrightarrow> standardize pd now h parsed data_type = (r, h') \<Longrightarrow>
     (\<forall>a < next_ref h. objs h' a = objs h a)
     \<and> objs h' (data_ref parsed) = objs h (data_ref parsed)
     \<and> objs h' (metadata_ref parsed) = objs h (metadata_ref parsed)
     \<and> wf_store h'
     \<and> (\<forall>res. r = Inr res \<longrightarrow>
           next_ref h \<le> data_ref res \<and> next_ref h \<le> metadata_ref res
           \<and> data_ref res \<noteq> data_ref parsed \<and> data_ref res \<noteq> metadata_ref parsed
           \<and> metadata_ref res \<noteq> metadata_ref parsed \<and> metadata_ref res \<noteq> data_ref parsed
           \<and> (\<exists>df. objs h' (data_ref res) = Some (Frame df))
           \<and> (\<exists>md. objs h' (metadata_ref res) = Some (Dict md)))"
proof -
  assume wf: "wf_store h" and run: "standardize pd now h parsed data_type = (r, h')"
  have r: "r = fst (standardize pd now h parsed data_type)"
    and h': "h' = snd (standardize pd now h parsed data_type)"
    using run by simp_all
  show ?thesis
  proof (cases "\<exists>df. objs h (data_ref parsed) = Some (Frame df)")
    case False
    then have "standardize pd now h parsed data_type = (Inl no_frame, h)"
      by (simp add: standardize_no_frame)
    with run wf show ?thesis by auto
  next
    case True
    then obtain df where d: "objs h (data_ref parsed) = Some (Frame df)" by blast
    show ?thesis
    proof (cases "\<exists>md. objs h (metadata_ref parsed) = Some (Dict md)")
      case False
      then have "standardize pd now h parsed data_type = (Inl no_dict, h)"
        using d by (simp add: standardize_no_dict)
      with run wf show ?thesis by auto
    next
      case True
      then obtain md where m: "objs h (metadata_ref parsed) = Some (Dict md)" by blast
      have dl: "data_ref parsed < next_ref h" by (rule wf_store_allocated[OF wf d])
      have ml: "metadata_ref parsed < next_ref h" by (rule wf_store_allocated[OF wf m])
      show ?thesis
      proof (cases "distinct (columns df)")
        case True
        note s = standardize_distinct[OF d m True, where pd = pd and now = now and data_type = data_type]
        have old: "\<forall>a < next_ref h. objs h' a = objs h a" using s(4) h' by simp
        have w: "wf_store h'"
          unfolding wf_store_def
        proof (intro allI impI)
          fix a assume "next_ref h' \<le> a"
          then have a: "Suc (Suc (Suc (Suc (Suc (next_ref h))))) \<le> a" using s(5) h' by simp
          then have "objs h' a = objs h a" using s(6) h' by simp
          moreover have "objs h a = None" using wf a by (simp add: wf_store_def)
          ultimately show "objs h' a = None" by simp
        qed
        have res: "r = Inr \<lparr>metadata_ref = Suc (next_ref h),
                            data_ref = Suc (Suc (Suc (Suc (next_ref h))))\<rparr>"
          using s(1) r by simp
        from old dl ml w res s(2) s(3) h' show ?thesis by auto
      next
        case False
        note s = standardize_duplicate[OF d m False, where pd = pd and now = now and data_type = data_type]
        have old: "\<forall>a < next_ref h. objs h' a = objs h a" using s(2) h' by simp
        have w: "wf_store h'"
          unfolding wf_store_def
        proof (intro allI impI)
          fix a assume "next_ref h' \<le> a"
          then have a: "Suc (Suc (next_ref h)) \<le> a" using s(3) h' by simp
          then have "objs h' a = objs h a" using s(4) h' by simp
          moreover have "objs h a = None" using wf a by (simp add: wf_store_def)
          ultimately show "objs h' a = None" by simp
        qed
        have res: "r = Inl (Exc ValueError (Text ''cannot reindex on an axis with duplicate labels''))"
          using s(1) r by simp
        from old dl ml w res show ?thesis by auto
      qed
    qed
  qed
qed

lemma wf_example_store: "wf_store example_store"
  by (simp add: wf_store_def example_store_def)

lemma example_store_objs:
  "objs example_store (data_ref example_parsed) = Some (Frame example_frame)"
  "objs example_store (metadata_ref example_parsed) = Some (Dict example_metadata)"
  by (simp_all add: example_store_def example_parsed_def)

lemma example_frame_distinct: "distinct (columns example_frame)"
  by (simp add: columns_def example_frame_def)

theorem standardize_copies_witness:
  "wf_store example_store
   \<and> fst (standardize example_pandas ''2024-01-02T00:00:00'' example_store example_parsed ''electrical'')
       = Inr \<lparr>metadata_ref = 3, data_ref = 6\<rparr>
   \<and> objs (snd (standardize example_pandas ''2024-01-02T00:00:00'' example_store example_parsed
                  ''electrical'')) 0 = Some (Frame example_frame)
   \<and> objs (snd (standardize example_pandas ''2024-01-02T00:00:00'' example_store example_parsed
                  ''electrical'')) 1 = Some (Dict example_metadata)"
proof -
  let ?run = "standardize example_pandas ''2024-01-02T00:00:00'' example_store example_parsed ''electrical''"
  have f: "fst ?run = Inr \<lparr>metadata_ref = 3, data_ref = 6\<rparr>"
    using standardize_distinct(1)[OF example_store_objs example_frame_distinct]
    by (simp add: example_store_def eval_nat_numeral)
  have e: "?run = (fst ?run, snd ?run)" by simp
  from standardize_copies[OF wf_example_store e] f wf_example_store
  show ?thesis by (simp add: example_store_def example_parsed_def)
qed



subsection \<open>Tags that name no variant\<close>




subsection \<open>Errors of write_output\<close>

text \<open>
  Claim C4, as amended. When \<open>write_output\<close> fails, the error it raises is the
  underlying failure itself, not wrapped: the error of creating the directory, of the
  pandas writer, of opening or writing the metadata file, or the \<open>TypeError\<close> of
  \<open>json.dump\<close> on a value that is not JSON-serializable.
\<close>

theorem write_output_raises_unwrapped:
  "write_output st env d p include_metadata = Inl e \<Longrightarrow>
     mkdir env (parent p) = Some e
     \<or> write_data_file st env d p = Some e
     \<or> open_write env (metadata_path p) = Some e
     \<or> (e = not_serializable \<and> \<not> json_serializable (convert_numpy_types (MDict (metadata d))))
     \<or> write_text env (metadata_path p) = Some e"
  by (auto simp: write_output_def metadata_path_def Let_def
      split: option.splits if_splits)

theorem write_output_raises_unwrapped_witness:
  "write_output \<lparr>output_format = ''csv''\<rparr> example_io opaque_data example_path True
     = Inl not_serializable
   \<and> mkdir example_io (parent example_path) = None
   \<and> write_data_file \<lparr>output_format = ''csv''\<rparr> example_io opaque_data example_path = None
   \<and> open_write example_io (metadata_path example_path) = None
   \<and> write_text example_io (metadata_path example_path) = None
   \<and> \<not> json_serializable (convert_numpy_types (MDict (metadata opaque_data)))"
proof -
  have w: "write_output \<lparr>output_format = ''csv''\<rparr> example_io opaque_data example_path True
     = Inl not_serializable"
    by (simp add: write_output_def write_data_file_def example_io_def opaque_data_def Let_def)
  from write_output_raises_unwrapped[OF w] w show ?thesis
    by (simp add: example_io_def write_data_file_def opaque_data_def)
qed

text \<open>
  The claim as written fails: the \<open>TypeError\<close> for a metadata value that is not
  JSON-safe and the \<open>PermissionError\<close> of the file system both leave
  \<open>write_output\<close> as they are, and neither is a \<open>ParserError\<close>.
\<close>

theorem write_output_counterexample:
  "write_output \<lparr>output_format = ''csv''\<rparr> example_io opaque_data example_path True
     = Inl (Exc TypeError (Text ''Object is not JSON serializable''))
   \<and> \<not> isinstance (Exc TypeError (Text ''Object is not JSON serializable'')) ParserError
   \<and> write_output \<lparr>output_format = ''csv''\<rparr> failing_io opaque_data example_path True
     = Inl (Exc PermissionError (Text ''Permission denied''))
   \<and> \<not> isinstance (Exc PermissionError (Text ''Permission denied'')) ParserError"
  by (simp add: write_output_def write_data_file_def example_io_def failing_io_def opaque_data_def
      not_serializable_def isinstance_def Let_def)


end
